theory Spec2Isabelle
  imports Complex_Main "HOL-Library.Word"
begin

unbundle bit_operations_syntax

section \<open>Python values that reach the schemas\<close>

subsection \<open>UUIDs\<close>

text \<open>
  A \<^verbatim>\<open>uuid.UUID\<close> is its 128-bit integer. \<^verbatim>\<open>UUID.variant\<close> and
  \<^verbatim>\<open>UUID.version\<close> read bits of it: the version is only defined for the
  RFC 4122 variant (top two bits of the clock-seq octet are \<open>10\<close>), and is then the
  nibble at bit 76.
\<close>

type_synonym uuid = "128 word"

definition rfc_4122 :: "uuid \<Rightarrow> bool" where
  "rfc_4122 u \<longleftrightarrow> u AND push_bit 48 0x8000 \<noteq> 0 \<and> u AND push_bit 48 0x4000 = 0"

definition version :: "uuid \<Rightarrow> nat option" where
  "version u = (if rfc_4122 u then Some (unat (drop_bit 76 u AND 0xf)) else None)"

text \<open>
  \<^verbatim>\<open>uuid.uuid4()\<close> is \<^verbatim>\<open>UUID(bytes=os.urandom(16), version=4)\<close>: the constructor
  overwrites the variant bits with \<open>10\<close> and the version nibble with 4, and keeps the
  other 122 random bits.
\<close>

definition uuid4 :: "128 word \<Rightarrow> uuid" where
  "uuid4 r =
     (((r AND NOT (push_bit 48 0xc000)) OR push_bit 48 0x8000)
        AND NOT (push_bit 64 0xf000)) OR push_bit 76 4"

text \<open>The bits of the random input that \<^verbatim>\<open>uuid4\<close> keeps.\<close>

definition keep :: "128 word" where
  "keep = NOT (push_bit 48 0xc000 OR push_bit 64 0xf000)"

text \<open>
  \<^verbatim>\<open>UUID(hex)\<close>, the constructor \<^verbatim>\<open>product_id\<close> calls: hyphens are removed, 32
  characters must remain, and they are read as one hexadecimal number. (The constructor
  also drops \<^verbatim>\<open>urn:\<close>, \<^verbatim>\<open>uuid:\<close> and surrounding braces; the fixture's literal has
  none, and such strings are \<^verbatim>\<open>ValueError\<close> here.)
\<close>

definition hexval :: "char \<Rightarrow> nat option" where
  "hexval c =
     (let k = (of_char c :: nat) in
      if 48 \<le> k \<and> k \<le> 57 then Some (k - 48)
      else if 97 \<le> k \<and> k \<le> 102 then Some (k - 87)
      else if 65 \<le> k \<and> k \<le> 70 then Some (k - 55)
      else None)"

fun int_16 :: "nat \<Rightarrow> string \<Rightarrow> nat option" where
  "int_16 acc [] = Some acc"
| "int_16 acc (c # cs) =
     (case hexval c of None \<Rightarrow> None | Some d \<Rightarrow> int_16 (16 * acc + d) cs)"

definition UUID :: "string \<Rightarrow> uuid option" where
  "UUID hex =
     (let h = filter (\<lambda>c. c \<noteq> CHR ''-'') hex in
      if length h \<noteq> 32 then None
      else map_option word_of_nat (int_16 0 h))"

subsection \<open>Datetimes\<close>

text \<open>
  A \<^verbatim>\<open>datetime\<close> is its calendar reading in microseconds together with its
  \<^verbatim>\<open>tzinfo\<close>: \<open>None\<close> for a naive value, otherwise the UTC offset in minutes.
  \<^verbatim>\<open>datetime.now(UTC)\<close> reads the system clock and attaches offset 0.
\<close>

record datetime =
  micros :: int
  utcoffset :: "int option"

definition aware_utc :: "datetime \<Rightarrow> bool" where
  "aware_utc d \<longleftrightarrow> utcoffset d = Some 0"

subsection \<open>The environment of a construction\<close>

text \<open>
  The default factories read two sources outside the program: \<^verbatim>\<open>os.urandom\<close> and the
  system clock. The world holds what the \<open>k\<close>-th call of each returns, and how many calls
  were made so far.
\<close>

record world =
  urandom :: "nat \<Rightarrow> 128 word"
  drawn :: nat
  clock :: "nat \<Rightarrow> int"
  reads :: nat

definition uuid_uuid4 :: "world \<Rightarrow> uuid \<times> world" where
  "uuid_uuid4 w = (uuid4 (urandom w (drawn w)), w\<lparr>drawn := Suc (drawn w)\<rparr>)"

definition datetime_now_UTC :: "world \<Rightarrow> datetime \<times> world" where
  "datetime_now_UTC w =
     (\<lparr>micros = clock w (reads w), utcoffset = Some 0\<rparr>, w\<lparr>reads := Suc (reads w)\<rparr>)"

subsection \<open>Keyword arguments\<close>

text \<open>
  The values a caller can pass. \<open>PyObject\<close> stands for an object of any type that has no
  conversion to one of the six field types (a list, a dict). A Python float is the real
  number it denotes; binary rounding is not modelled, so conversions from integers are
  exact up to magnitude \<open>2 ^ 53\<close>.
\<close>

datatype pyval =
    PyNone
  | PyBool bool
  | PyInt int
  | PyFloat real
  | PyStr string
  | PyUUID uuid
  | PyDatetime datetime
  | PyObject

type_synonym kwargs = "string \<rightharpoonup> pyval"

section \<open>Field validation (pydantic, lax mode)\<close>

datatype err_type =
    missing
  | string_type
  | int_type | int_parsing | int_from_float
  | float_type | float_parsing
  | bool_type | bool_parsing
  | uuid_type | uuid_parsing | uuid_version
  | datetime_type | datetime_parsing

type_synonym line_error = "string \<times> err_type"

datatype pyerror = ValidationError "line_error list" | TypeError | ValueError

text \<open>
  The library's text parsers that no field declaration of this program fixes are
  parameters of the model: how a string is read as a UUID or as a datetime, how a number
  is read as a timestamp, and which spellings of a number are accepted besides the plain
  decimal one (surrounding blanks, a plus sign, underscores, a fraction, an exponent).
  Every theorem below holds for all of them.
\<close>

record lax =
  str_uuid :: "string \<Rightarrow> uuid option"
  str_datetime :: "string \<Rightarrow> datetime option"
  num_datetime :: "real \<Rightarrow> datetime option"
  str_int :: "string \<Rightarrow> int option"
  str_float :: "string \<Rightarrow> real option"

definition digit :: "char \<Rightarrow> nat option" where
  "digit c =
     (let k = (of_char c :: nat) in if 48 \<le> k \<and> k \<le> 57 then Some (k - 48) else None)"

fun int_10 :: "nat \<Rightarrow> string \<Rightarrow> nat option" where
  "int_10 acc [] = Some acc"
| "int_10 acc (c # cs) =
     (case digit c of None \<Rightarrow> None | Some d \<Rightarrow> int_10 (10 * acc + d) cs)"

text \<open>A plain decimal numeral: an optional minus sign and at least one digit.\<close>

definition decimal :: "string \<Rightarrow> int option" where
  "decimal s =
     (case s of
        [] \<Rightarrow> None
      | c # cs \<Rightarrow>
          if c = CHR ''-'' then
            (if cs = [] then None else map_option (\<lambda>n. - int n) (int_10 0 cs))
          else map_option int (int_10 0 s))"

definition validate_str :: "pyval \<Rightarrow> err_type + string" where
  "validate_str v = (case v of PyStr s \<Rightarrow> Inr s | _ \<Rightarrow> Inl string_type)"

text \<open>
  \<^verbatim>\<open>int\<close>: an int as it is, a bool as 0 or 1, a float without fractional part, a
  string that is a numeral (at most 4300 characters for the plain form).
\<close>

definition validate_int :: "lax \<Rightarrow> pyval \<Rightarrow> err_type + int" where
  "validate_int L v =
     (case v of
        PyInt n \<Rightarrow> Inr n
      | PyBool b \<Rightarrow> Inr (if b then 1 else 0)
      | PyFloat r \<Rightarrow> if r = of_int \<lfloor>r\<rfloor> then Inr \<lfloor>r\<rfloor> else Inl int_from_float
      | PyStr s \<Rightarrow>
          (case (if length s \<le> 4300 then decimal s else None) of
             Some n \<Rightarrow> Inr n
           | None \<Rightarrow> (case str_int L s of Some n \<Rightarrow> Inr n | None \<Rightarrow> Inl int_parsing))
      | _ \<Rightarrow> Inl int_type)"

definition validate_float :: "lax \<Rightarrow> pyval \<Rightarrow> err_type + real" where
  "validate_float L v =
     (case v of
        PyFloat r \<Rightarrow> Inr r
      | PyInt n \<Rightarrow> Inr (of_int n)
      | PyBool b \<Rightarrow> Inr (if b then 1 else 0)
      | PyStr s \<Rightarrow>
          (case decimal s of
             Some n \<Rightarrow> Inr (of_int n)
           | None \<Rightarrow> (case str_float L s of Some r \<Rightarrow> Inr r | None \<Rightarrow> Inl float_parsing))
      | _ \<Rightarrow> Inl float_type)"

definition lower :: "char \<Rightarrow> char" where
  "lower c =
     (let k = (of_char c :: nat) in if 65 \<le> k \<and> k \<le> 90 then char_of (k + 32) else c)"

definition str_as_bool :: "string \<Rightarrow> bool option" where
  "str_as_bool s =
     (let t = map lower s in
      if s = ''0'' \<or> t \<in> set [''f'', ''n'', ''no'', ''off'', ''false''] then Some False
      else if s = ''1'' \<or> t \<in> set [''t'', ''y'', ''on'', ''yes'', ''true''] then Some True
      else None)"

definition validate_bool :: "pyval \<Rightarrow> err_type + bool" where
  "validate_bool v =
     (case v of
        PyBool b \<Rightarrow> Inr b
      | PyInt n \<Rightarrow> if n = 0 then Inr False else if n = 1 then Inr True else Inl bool_parsing
      | PyFloat r \<Rightarrow> if r = 0 then Inr False else if r = 1 then Inr True else Inl bool_parsing
      | PyStr s \<Rightarrow> (case str_as_bool s of Some b \<Rightarrow> Inr b | None \<Rightarrow> Inl bool_parsing)
      | _ \<Rightarrow> Inl bool_type)"

text \<open>\<^verbatim>\<open>UUID4\<close>: a UUID, given or parsed from text, whose \<^verbatim>\<open>version\<close> is 4.\<close>

definition check_version :: "uuid \<Rightarrow> err_type + uuid" where
  "check_version u = (if version u = Some 4 then Inr u else Inl uuid_version)"

definition validate_uuid4 :: "lax \<Rightarrow> pyval \<Rightarrow> err_type + uuid" where
  "validate_uuid4 L v =
     (case v of
        PyUUID u \<Rightarrow> check_version u
      | PyStr s \<Rightarrow> (case str_uuid L s of Some u \<Rightarrow> check_version u | None \<Rightarrow> Inl uuid_parsing)
      | _ \<Rightarrow> Inl uuid_type)"

text \<open>\<^verbatim>\<open>datetime\<close>: any datetime instance as it is, naive or aware.\<close>

definition validate_datetime :: "lax \<Rightarrow> pyval \<Rightarrow> err_type + datetime" where
  "validate_datetime L v =
     (case v of
        PyDatetime d \<Rightarrow> Inr d
      | PyStr s \<Rightarrow>
          (case str_datetime L s of Some d \<Rightarrow> Inr d | None \<Rightarrow> Inl datetime_parsing)
      | PyInt n \<Rightarrow>
          (case num_datetime L (of_int n) of Some d \<Rightarrow> Inr d | None \<Rightarrow> Inl datetime_parsing)
      | PyFloat r \<Rightarrow>
          (case num_datetime L r of Some d \<Rightarrow> Inr d | None \<Rightarrow> Inl datetime_parsing)
      | _ \<Rightarrow> Inl datetime_type)"

text \<open>
  A field declared \<^verbatim>\<open>Field(...)\<close> must be among the keyword arguments; a field with a
  \<^verbatim>\<open>default_factory\<close> calls the factory exactly when it is not. Each field reports its
  own error and validation goes on with the next field.
\<close>

definition required ::
  "(pyval \<Rightarrow> err_type + 'a) \<Rightarrow> string \<Rightarrow> kwargs \<Rightarrow> line_error list + 'a" where
  "required validate loc kw =
     (case kw loc of
        None \<Rightarrow> Inl [(loc, missing)]
      | Some v \<Rightarrow> (case validate v of Inl e \<Rightarrow> Inl [(loc, e)] | Inr x \<Rightarrow> Inr x))"

definition defaulted ::
  "(pyval \<Rightarrow> err_type + 'a) \<Rightarrow> (world \<Rightarrow> 'a \<times> world) \<Rightarrow> string \<Rightarrow> kwargs \<Rightarrow> world
     \<Rightarrow> (line_error list + 'a) \<times> world" where
  "defaulted validate default_factory loc kw w =
     (case kw loc of
        None \<Rightarrow> (Inr (fst (default_factory w)), snd (default_factory w))
      | Some v \<Rightarrow> (case validate v of Inl e \<Rightarrow> (Inl [(loc, e)], w) | Inr x \<Rightarrow> (Inr x, w)))"

definition errors_of :: "line_error list + 'a \<Rightarrow> line_error list" where
  "errors_of r = (case r of Inl es \<Rightarrow> es | Inr _ \<Rightarrow> [])"

section \<open>The schemas\<close>

record BaseSchemaMixin =
  id' :: uuid
  created_at :: datetime
  updated_at :: datetime

record ProductIn = BaseSchemaMixin +
  name :: string
  quantity :: int
  price :: real
  status :: bool

text \<open>
  \<^verbatim>\<open>BaseSchemaMixin(**kw)\<close>: the three fields in declaration order, each with its own
  factory call. An unknown keyword is ignored.
\<close>

definition BaseSchemaMixin_init ::
  "lax \<Rightarrow> kwargs \<Rightarrow> world \<Rightarrow> (pyerror + BaseSchemaMixin) \<times> world" where
  "BaseSchemaMixin_init L kw w0 =
     (let (r1, w1) = defaulted (validate_uuid4 L) uuid_uuid4 ''id'' kw w0;
          (r2, w2) = defaulted (validate_datetime L) datetime_now_UTC ''created_at'' kw w1;
          (r3, w3) = defaulted (validate_datetime L) datetime_now_UTC ''updated_at'' kw w2
      in (case (r1, r2, r3) of
            (Inr i, Inr c, Inr u) \<Rightarrow> Inr \<lparr>id' = i, created_at = c, updated_at = u\<rparr>
          | _ \<Rightarrow> Inl (ValidationError (errors_of r1 @ errors_of r2 @ errors_of r3)),
          w3))"

text \<open>\<^verbatim>\<open>ProductIn(**kw)\<close>: the inherited fields first, then the four required ones.\<close>

definition ProductIn_init ::
  "lax \<Rightarrow> kwargs \<Rightarrow> world \<Rightarrow> (pyerror + ProductIn) \<times> world" where
  "ProductIn_init L kw w0 =
     (let (r1, w1) = defaulted (validate_uuid4 L) uuid_uuid4 ''id'' kw w0;
          (r2, w2) = defaulted (validate_datetime L) datetime_now_UTC ''created_at'' kw w1;
          (r3, w3) = defaulted (validate_datetime L) datetime_now_UTC ''updated_at'' kw w2;
          r4 = required validate_str ''name'' kw;
          r5 = required (validate_int L) ''quantity'' kw;
          r6 = required (validate_float L) ''price'' kw;
          r7 = required validate_bool ''status'' kw
      in (case (r1, r2, r3, r4, r5, r6, r7) of
            (Inr i, Inr c, Inr u, Inr n, Inr q, Inr p, Inr s) \<Rightarrow>
              Inr \<lparr>id' = i, created_at = c, updated_at = u,
                   name = n, quantity = q, price = p, status = s\<rparr>
          | _ \<Rightarrow>
              Inl (ValidationError
                     (errors_of r1 @ errors_of r2 @ errors_of r3 @ errors_of r4
                        @ errors_of r5 @ errors_of r6 @ errors_of r7)),
          w3))"

subsection \<open>What a construction computes, field by field\<close>

text \<open>
  The values of the three inherited fields of a construction that started in world \<open>w\<close>:
  an omitted field holds what its factory returned (the clock is read once more for
  \<^verbatim>\<open>updated_at\<close> when \<^verbatim>\<open>created_at\<close> was read too), a given one what its validator
  returned.
\<close>

definition base_fields ::
  "lax \<Rightarrow> kwargs \<Rightarrow> world \<Rightarrow> uuid \<Rightarrow> datetime \<Rightarrow> datetime \<Rightarrow> bool" where
  "base_fields L kw w i c u \<longleftrightarrow>
     (case kw ''id'' of
        None \<Rightarrow> i = uuid4 (urandom w (drawn w))
      | Some x \<Rightarrow> validate_uuid4 L x = Inr i) \<and>
     (case kw ''created_at'' of
        None \<Rightarrow> c = \<lparr>micros = clock w (reads w), utcoffset = Some 0\<rparr>
      | Some x \<Rightarrow> validate_datetime L x = Inr c) \<and>
     (case kw ''updated_at'' of
        None \<Rightarrow>
          u = \<lparr>micros = clock w (reads w + (if kw ''created_at'' = None then 1 else 0)),
               utcoffset = Some 0\<rparr>
      | Some x \<Rightarrow> validate_datetime L x = Inr u)"

text \<open>The error lines of one field, and of the two schemas.\<close>

definition field_errors ::
  "(pyval \<Rightarrow> err_type + 'a) \<Rightarrow> bool \<Rightarrow> string \<Rightarrow> kwargs \<Rightarrow> line_error list" where
  "field_errors v req loc kw =
     (case kw loc of
        None \<Rightarrow> if req then [(loc, missing)] else []
      | Some x \<Rightarrow> (case v x of Inl e \<Rightarrow> [(loc, e)] | Inr y \<Rightarrow> []))"

definition base_errors :: "lax \<Rightarrow> kwargs \<Rightarrow> line_error list" where
  "base_errors L kw =
     field_errors (validate_uuid4 L) False ''id'' kw
       @ field_errors (validate_datetime L) False ''created_at'' kw
       @ field_errors (validate_datetime L) False ''updated_at'' kw"

definition product_errors :: "lax \<Rightarrow> kwargs \<Rightarrow> line_error list" where
  "product_errors L kw =
     base_errors L kw
       @ field_errors validate_str True ''name'' kw
       @ field_errors (validate_int L) True ''quantity'' kw
       @ field_errors (validate_float L) True ''price'' kw
       @ field_errors validate_bool True ''status'' kw"

section \<open>Sample data fixtures\<close>

definition product_id :: "uuid option" where
  "product_id = UUID ''ddc287ef-ab93-4ef5-8336-78883c422f6a''"

text \<open>
  \<^verbatim>\<open>ProductIn(**product_data(), id=product_id)\<close>. The factory module is not part of the
  sources at hand, so the dictionary \<^verbatim>\<open>product_data()\<close> returns is an argument. A
  dictionary that already has the key \<^verbatim>\<open>id\<close> makes the call itself a \<^verbatim>\<open>TypeError\<close>
  (the keyword is given twice).
\<close>

definition product_in :: "lax \<Rightarrow> kwargs \<Rightarrow> world \<Rightarrow> (pyerror + ProductIn) \<times> world" where
  "product_in L product_data w =
     (case product_id of
        None \<Rightarrow> (Inl ValueError, w)
      | Some u \<Rightarrow>
          if product_data ''id'' \<noteq> None then (Inl TypeError, w)
          else ProductIn_init L (product_data(''id'' \<mapsto> PyUUID u)) w)"

section \<open>Test database fixture\<close>

text \<open>
  An exception is given by where its class sits: under \<^verbatim>\<open>Exception\<close>, as every error
  of the database driver does (\<^verbatim>\<open>ConfigurationError\<close>, \<^verbatim>\<open>OperationFailure\<close>,
  \<^verbatim>\<open>ServerSelectionTimeoutError\<close>), or under \<^verbatim>\<open>BaseException\<close> only
  (\<^verbatim>\<open>CancelledError\<close>, \<^verbatim>\<open>KeyboardInterrupt\<close>).
\<close>

datatype pyexc = Exception string | BaseException string

text \<open>
  A database is its collections, in the order the server lists them, each with its
  documents. Whether an operation of the driver raises is part of the state too: the
  listing as a whole, and the deletion on each collection.
\<close>

record 'd database =
  collections :: "(string \<times> 'd list) list"
  list_fault :: "pyexc option"
  delete_fault :: "string \<Rightarrow> pyexc option"

text \<open>A client is the connection string it was made from and the server's databases.\<close>

record 'd client =
  uri :: string
  server :: "string \<Rightarrow> 'd database"

definition startswith :: "string \<Rightarrow> string \<Rightarrow> bool" where
  "startswith s p \<longleftrightarrow> take (length p) s = p"

text \<open>
  The database a connection string names: what follows the first \<open>/\<close> after the
  scheme, up to the options; none when that is empty.
\<close>

definition uri_database :: "string \<Rightarrow> string option" where
  "uri_database u =
     (let rest = (if startswith u ''mongodb://'' then drop 10 u else u);
          path = drop 1 (dropWhile (\<lambda>c. c \<noteq> CHR ''/'') rest);
          dbase = takeWhile (\<lambda>c. c \<noteq> CHR ''?'') path
      in if dbase = [] then None else Some dbase)"

definition mongo_client :: "(string \<Rightarrow> 'd database) \<Rightarrow> 'd client" where
  "mongo_client srv = \<lparr>uri = ''mongodb://localhost:27017'', server = srv\<rparr>"

text \<open>
  \<^verbatim>\<open>get_database()\<close> without a name is the database of the connection string, and a
  \<^verbatim>\<open>ConfigurationError\<close> when the string names none.
\<close>

definition get_database :: "'d client \<Rightarrow> pyexc + string" where
  "get_database c =
     (case uri_database (uri c) of
        None \<Rightarrow> Inl (Exception ''ConfigurationError'')
      | Some d \<Rightarrow> Inr d)"

definition list_collection_names :: "'d database \<Rightarrow> pyexc + string list" where
  "list_collection_names db =
     (case list_fault db of Some e \<Rightarrow> Inl e | None \<Rightarrow> Inr (map fst (collections db)))"

text \<open>\<^verbatim>\<open>delete_many({})\<close>: every document of the named collection goes; the collection stays.\<close>

definition delete_many :: "string \<Rightarrow> 'd database \<Rightarrow> pyexc + 'd database" where
  "delete_many n db =
     (case delete_fault db n of
        Some e \<Rightarrow> Inl e
      | None \<Rightarrow>
          Inr (db\<lparr>collections :=
                    map (\<lambda>(m, ds). if m = n then (m, []) else (m, ds)) (collections db)\<rparr>))"

text \<open>
  The \<^verbatim>\<open>for\<close> loop of \<^verbatim>\<open>clear_collections\<close>. The result is the exception that left
  the loop, if any, and the client's state at that point.
\<close>

fun for_collection_name :: "string list \<Rightarrow> 'd client \<Rightarrow> pyexc option \<times> 'd client" where
  "for_collection_name [] c = (None, c)"
| "for_collection_name (n # ns) c =
     (if startswith n ''system'' then for_collection_name ns c
      else
        (case get_database c of
           Inl e \<Rightarrow> (Some e, c)
         | Inr d \<Rightarrow>
             (case delete_many n (server c d) of
                Inl e \<Rightarrow> (Some e, c)
              | Inr db \<Rightarrow> for_collection_name ns (c\<lparr>server := (server c)(d := db)\<rparr>))))"

definition try_body :: "'d client \<Rightarrow> pyexc option \<times> 'd client" where
  "try_body c =
     (case get_database c of
        Inl e \<Rightarrow> (Some e, c)
      | Inr d \<Rightarrow>
          (case list_collection_names (server c d) of
             Inl e \<Rightarrow> (Some e, c)
           | Inr collections_names \<Rightarrow> for_collection_name collections_names c))"

text \<open>
  The part of \<^verbatim>\<open>clear_collections\<close> after \<^verbatim>\<open>yield\<close>: \<^verbatim>\<open>except Exception: pass\<close>
  ends the step normally for an instance of \<^verbatim>\<open>Exception\<close> and lets anything else
  through.
\<close>

definition clear_collections :: "'d client \<Rightarrow> pyexc option \<times> 'd client" where
  "clear_collections c =
     (case try_body c of
        (None, c') \<Rightarrow> (None, c')
      | (Some (Exception _), c') \<Rightarrow> (None, c')
      | (Some (BaseException k), c') \<Rightarrow> (Some (BaseException k), c'))"



text \<open>Whether \<^verbatim>\<open>except Exception\<close> catches an exception.\<close>

definition is_Exception :: "pyexc \<Rightarrow> bool" where
  "is_Exception e = (case e of Exception k \<Rightarrow> True | BaseException k \<Rightarrow> False)"


text \<open>A construction rejects its arguments with the error \<open>e\<close> reported at field \<open>loc\<close>.\<close>

definition rejects :: "(pyerror + 'a) \<times> world \<Rightarrow> string \<Rightarrow> err_type \<Rightarrow> bool" where
  "rejects res loc e \<longleftrightarrow>
     (case fst res of Inl (ValidationError es) \<Rightarrow> (loc, e) \<in> set es | _ \<Rightarrow> False)"

section \<open>Sample inputs\<close>

text \<open>Parsers that read nothing, a world whose sources change at every call, and one
  whose sources never change.\<close>

definition reject_all :: lax where
  "reject_all =
     \<lparr>str_uuid = (\<lambda>s. None), str_datetime = (\<lambda>s. None), num_datetime = (\<lambda>r. None),
      str_int = (\<lambda>s. None), str_float = (\<lambda>s. None)\<rparr>"

definition counting :: world where
  "counting = \<lparr>urandom = word_of_nat, drawn = 0, clock = int, reads = 0\<rparr>"

definition frozen :: world where
  "frozen = \<lparr>urandom = (\<lambda>k. 0), drawn = 0, clock = (\<lambda>k. 0), reads = 0\<rparr>"

definition sample_data :: kwargs where
  "sample_data =
     [''name'' \<mapsto> PyStr ''Iphone 14 Pro Max'', ''quantity'' \<mapsto> PyInt 10,
      ''price'' \<mapsto> PyFloat 8.5, ''status'' \<mapsto> PyBool True]"

definition no_arguments :: kwargs where
  "no_arguments = Map.empty"

definition naive_created_at :: kwargs where
  "naive_created_at = [''created_at'' \<mapsto> PyDatetime \<lparr>micros = 0, utcoffset = None\<rparr>]"

definition pinned :: kwargs where
  "pinned =
     [''id'' \<mapsto> PyUUID 0xddc287efab934ef5833678883c422f6a,
      ''created_at'' \<mapsto> PyDatetime \<lparr>micros = 5, utcoffset = Some 0\<rparr>,
      ''updated_at'' \<mapsto> PyDatetime \<lparr>micros = 9, utcoffset = Some 0\<rparr>]"

definition version_1_id :: kwargs where
  "version_1_id = sample_data(''id'' \<mapsto> PyUUID 0xddc287efab931ef5833678883c422f6a)"

definition quantity_as_text :: kwargs where
  "quantity_as_text = sample_data(''quantity'' \<mapsto> PyStr ''10'')"

definition all_none :: kwargs where
  "all_none =
     [''name'' \<mapsto> PyNone, ''quantity'' \<mapsto> PyNone, ''price'' \<mapsto> PyNone, ''status'' \<mapsto> PyNone]"

definition quantity_abc :: kwargs where
  "quantity_abc = sample_data(''quantity'' \<mapsto> PyStr ''abc'')"


definition sample_collections :: "(string \<times> nat list) list" where
  "sample_collections = [(''products'', [1, 2]), (''system.views'', [3]), (''orders'', [4])]"

text \<open>
  A client whose connection string names the database \<^verbatim>\<open>store\<close>, and a database in
  which deleting from \<^verbatim>\<open>products\<close> raises (the user may not remove documents there).
\<close>

definition store_client :: "nat database \<Rightarrow> nat client" where
  "store_client db = \<lparr>uri = ''mongodb://localhost:27017/store'', server = (\<lambda>n. db)\<rparr>"

definition read_only_products :: "nat database" where
  "read_only_products =
     \<lparr>collections = sample_collections, list_fault = None,
      delete_fault = (\<lambda>n. if n = ''products'' then Some (Exception ''OperationFailure'') else None)\<rparr>"

section \<open>Bits of a version-4 UUID\<close>

lemma bit_two_pow: "bit (2 ^ k :: 128 word) n \<longleftrightarrow> n = k \<and> k < 128"
  by (auto simp add: bit_exp_iff possible_bit_word simp del: power_numeral)

lemma bit_variant_mask: "bit (push_bit 48 (0xc000 :: 128 word)) n \<longleftrightarrow> n = 62 \<or> n = 63"
proof -
  have "push_bit 48 (0xc000 :: 128 word) = 2 ^ 62 OR 2 ^ 63" by simp
  then show ?thesis by (simp only: bit_or_iff bit_two_pow) simp
qed

lemma bit_variant_10: "bit (push_bit 48 (0x8000 :: 128 word)) n \<longleftrightarrow> n = 63"
proof -
  have "push_bit 48 (0x8000 :: 128 word) = 2 ^ 63" by simp
  then show ?thesis by (simp only: bit_two_pow) simp
qed

lemma bit_variant_01: "bit (push_bit 48 (0x4000 :: 128 word)) n \<longleftrightarrow> n = 62"
proof -
  have "push_bit 48 (0x4000 :: 128 word) = 2 ^ 62" by simp
  then show ?thesis by (simp only: bit_two_pow) simp
qed

lemma bit_version_mask:
  "bit (push_bit 64 (0xf000 :: 128 word)) n \<longleftrightarrow> 76 \<le> n \<and> n < 80"
proof -
  have "push_bit 64 (0xf000 :: 128 word) = 2 ^ 76 OR 2 ^ 77 OR 2 ^ 78 OR 2 ^ 79" by simp
  then show ?thesis by (simp only: bit_or_iff bit_two_pow) auto
qed

lemma bit_version_4: "bit (push_bit 76 (4 :: 128 word)) n \<longleftrightarrow> n = 78"
proof -
  have "push_bit 76 (4 :: 128 word) = 2 ^ 78" by simp
  then show ?thesis by (simp only: bit_two_pow) simp
qed

lemma bit_uuid4:
  "bit (uuid4 r) n \<longleftrightarrow>
     (if 76 \<le> n \<and> n < 80 then n = 78 else if n = 62 \<or> n = 63 then n = 63 else bit r n)"
  unfolding uuid4_def
  by (simp only: bit_or_iff bit_and_iff bit_not_iff possible_bit_word
        bit_variant_mask bit_variant_10 bit_version_mask bit_version_4)
     (auto dest: bit_imp_le_length)

lemma word_eq_bits: "(a :: 128 word) = b \<longleftrightarrow> (\<forall>n. bit a n = bit b n)"
  by (auto intro: bit_eqI)

lemma word_zero_iff: "(w :: 128 word) = 0 \<longleftrightarrow> (\<forall>n. \<not> bit w n)"
  using word_eq_bits [of w 0] by simp

lemma rfc_4122_iff: "rfc_4122 u \<longleftrightarrow> bit u 63 \<and> \<not> bit u 62"
proof -
  have "u AND push_bit 48 0x8000 = 0 \<longleftrightarrow> \<not> bit u 63"
    by (simp only: word_zero_iff bit_and_iff bit_variant_10) auto
  moreover have "u AND push_bit 48 0x4000 = 0 \<longleftrightarrow> \<not> bit u 62"
    by (simp only: word_zero_iff bit_and_iff bit_variant_01) auto
  ultimately show ?thesis unfolding rfc_4122_def by blast
qed

lemma nibble_uuid4: "drop_bit 76 (uuid4 r) AND 0xf = 4"
proof (rule bit_eqI)
  fix n
  have f: "(0xf :: 128 word) = 2 ^ 0 OR 2 ^ 1 OR 2 ^ 2 OR 2 ^ 3" by simp
  have bf: "bit (0xf :: 128 word) n \<longleftrightarrow> n < 4"
    by (simp only: f bit_or_iff bit_two_pow) auto
  have "(4 :: 128 word) = 2 ^ 2" by simp
  then have b4: "bit (4 :: 128 word) n \<longleftrightarrow> n = 2"
    by (simp only: bit_two_pow) simp
  show "bit (drop_bit 76 (uuid4 r) AND 0xf) n \<longleftrightarrow> bit (4 :: 128 word) n"
    by (simp only: bit_and_iff bit_drop_bit_eq bf b4 bit_uuid4 o_def) auto
qed

lemma version_uuid4: "version (uuid4 r) = Some 4"
  by (simp add: version_def rfc_4122_iff bit_uuid4 nibble_uuid4)

lemma uuid4_eq_iff: "uuid4 a = uuid4 b \<longleftrightarrow> a AND keep = b AND keep"
proof -
  have k: "bit keep n \<longleftrightarrow> n < 128 \<and> \<not> (76 \<le> n \<and> n < 80) \<and> \<not> (n = 62 \<or> n = 63)" for n
    unfolding keep_def
    by (simp only: bit_not_iff bit_or_iff bit_variant_mask bit_version_mask possible_bit_word) auto
  show ?thesis
  proof
    assume e: "uuid4 a = uuid4 b"
    show "a AND keep = b AND keep"
    proof (rule bit_eqI)
      fix n
      from e have "bit (uuid4 a) n = bit (uuid4 b) n" by simp
      then show "bit (a AND keep) n = bit (b AND keep) n"
        by (auto simp add: bit_uuid4 bit_and_iff k split: if_splits)
    qed
  next
    assume e: "a AND keep = b AND keep"
    show "uuid4 a = uuid4 b"
    proof (rule bit_eqI)
      fix n
      from e have "bit (a AND keep) n = bit (b AND keep) n" by simp
      then show "bit (uuid4 a) n = bit (uuid4 b) n"
        by (auto simp add: bit_uuid4 bit_and_iff k dest: bit_imp_le_length)
    qed
  qed
qed

section \<open>Fields of a construction\<close>

lemma snd_defaulted:
  "snd (defaulted v f loc kw w) = (if kw loc = None then snd (f w) else w)"
  by (simp add: defaulted_def split: option.splits sum.splits)

lemma fst_defaulted_Inr:
  "fst (defaulted v f loc kw w) = Inr y \<longleftrightarrow>
     (case kw loc of None \<Rightarrow> y = fst (f w) | Some x \<Rightarrow> v x = Inr y)"
  by (auto simp add: defaulted_def split: option.splits sum.splits)

lemma required_Inr:
  "required v loc kw = Inr y \<longleftrightarrow> (\<exists>x. kw loc = Some x \<and> v x = Inr y)"
  by (auto simp add: required_def split: option.splits sum.splits)

lemma errors_defaulted:
  "errors_of (fst (defaulted v f loc kw w)) = field_errors v False loc kw"
  by (simp add: defaulted_def errors_of_def field_errors_def split: option.splits sum.splits)

lemma errors_required:
  "errors_of (required v loc kw) = field_errors v True loc kw"
  by (simp add: required_def errors_of_def field_errors_def split: option.splits sum.splits)

lemma isl_defaulted:
  "isl (fst (defaulted v f loc kw w)) \<longleftrightarrow> field_errors v False loc kw \<noteq> []"
  by (simp add: defaulted_def field_errors_def split: option.splits sum.splits)

lemma isl_required:
  "isl (required v loc kw) \<longleftrightarrow> field_errors v True loc kw \<noteq> []"
  by (simp add: required_def field_errors_def split: option.splits sum.splits)

lemma inherited_fields:
  obtains r1 r2 r3 w1 w2 w3 where
    "defaulted (validate_uuid4 L) uuid_uuid4 ''id'' kw w = (r1, w1)"
    "defaulted (validate_datetime L) datetime_now_UTC ''created_at'' kw w1 = (r2, w2)"
    "defaulted (validate_datetime L) datetime_now_UTC ''updated_at'' kw w2 = (r3, w3)"
    "\<And>i c u. r1 = Inr i \<and> r2 = Inr c \<and> r3 = Inr u \<longleftrightarrow> base_fields L kw w i c u"
    "errors_of r1 @ errors_of r2 @ errors_of r3 = base_errors L kw"
    "isl r1 \<or> isl r2 \<or> isl r3 \<longleftrightarrow> base_errors L kw \<noteq> []"
proof -
  obtain r1 w1 where d1: "defaulted (validate_uuid4 L) uuid_uuid4 ''id'' kw w = (r1, w1)"
    by force
  obtain r2 w2 where
    d2: "defaulted (validate_datetime L) datetime_now_UTC ''created_at'' kw w1 = (r2, w2)"
    by force
  obtain r3 w3 where
    d3: "defaulted (validate_datetime L) datetime_now_UTC ''updated_at'' kw w2 = (r3, w3)"
    by force
  have w1: "reads w1 = reads w" "clock w1 = clock w"
    using snd_defaulted [of "validate_uuid4 L" uuid_uuid4 "''id''" kw w] d1
    by (auto simp: uuid_uuid4_def split: if_splits)
  have w2: "reads w2 = reads w + (if kw ''created_at'' = None then 1 else 0)"
    "clock w2 = clock w"
    using snd_defaulted [of "validate_datetime L" datetime_now_UTC "''created_at''" kw w1] d2 w1
    by (auto simp: datetime_now_UTC_def split: if_splits)
  have r1: "r1 = Inr i \<longleftrightarrow>
      (case kw ''id'' of None \<Rightarrow> i = uuid4 (urandom w (drawn w))
       | Some x \<Rightarrow> validate_uuid4 L x = Inr i)" for i
    using fst_defaulted_Inr [of "validate_uuid4 L" uuid_uuid4 "''id''" kw w i] d1
    by (auto simp add: uuid_uuid4_def split: option.splits)
  have r2: "r2 = Inr c \<longleftrightarrow>
      (case kw ''created_at'' of
         None \<Rightarrow> c = \<lparr>micros = clock w (reads w), utcoffset = Some 0\<rparr>
       | Some x \<Rightarrow> validate_datetime L x = Inr c)" for c
    using fst_defaulted_Inr [of "validate_datetime L" datetime_now_UTC "''created_at''" kw w1 c]
      d2 w1
    by (auto simp add: datetime_now_UTC_def split: option.splits)
  have r3: "r3 = Inr u \<longleftrightarrow>
      (case kw ''updated_at'' of
         None \<Rightarrow> u = \<lparr>micros = clock w (reads w + (if kw ''created_at'' = None then 1 else 0)),
                     utcoffset = Some 0\<rparr>
       | Some x \<Rightarrow> validate_datetime L x = Inr u)" for u
    using fst_defaulted_Inr [of "validate_datetime L" datetime_now_UTC "''updated_at''" kw w2 u]
      d3 w2
    by (auto simp add: datetime_now_UTC_def split: option.splits)
  have e1: "errors_of r1 = field_errors (validate_uuid4 L) False ''id'' kw"
    "isl r1 \<longleftrightarrow> field_errors (validate_uuid4 L) False ''id'' kw \<noteq> []"
    using errors_defaulted [of "validate_uuid4 L" uuid_uuid4 "''id''" kw w]
      isl_defaulted [of "validate_uuid4 L" uuid_uuid4 "''id''" kw w] d1 by simp_all
  have e2: "errors_of r2 = field_errors (validate_datetime L) False ''created_at'' kw"
    "isl r2 \<longleftrightarrow> field_errors (validate_datetime L) False ''created_at'' kw \<noteq> []"
    using errors_defaulted [of "validate_datetime L" datetime_now_UTC "''created_at''" kw w1]
      isl_defaulted [of "validate_datetime L" datetime_now_UTC "''created_at''" kw w1] d2
    by simp_all
  have e3: "errors_of r3 = field_errors (validate_datetime L) False ''updated_at'' kw"
    "isl r3 \<longleftrightarrow> field_errors (validate_datetime L) False ''updated_at'' kw \<noteq> []"
    using errors_defaulted [of "validate_datetime L" datetime_now_UTC "''updated_at''" kw w2]
      isl_defaulted [of "validate_datetime L" datetime_now_UTC "''updated_at''" kw w2] d3
    by simp_all
  show thesis
  proof (rule that [OF d1 d2 d3])
    show "r1 = Inr i \<and> r2 = Inr c \<and> r3 = Inr u \<longleftrightarrow> base_fields L kw w i c u" for i c u
      unfolding base_fields_def r1 r2 r3 ..
    show "errors_of r1 @ errors_of r2 @ errors_of r3 = base_errors L kw"
      by (simp add: e1 e2 e3 base_errors_def)
    show "isl r1 \<or> isl r2 \<or> isl r3 \<longleftrightarrow> base_errors L kw \<noteq> []"
      by (simp add: e1 e2 e3 base_errors_def)
  qed
qed

lemma sum3:
  "(case (r1, r2, r3) of (Inr i, Inr c, Inr u) \<Rightarrow> Inr (f i c u) | _ \<Rightarrow> Inl e) = Inr r \<longleftrightarrow>
     (\<exists>i c u. (r1 = Inr i \<and> r2 = Inr c \<and> r3 = Inr u) \<and> r = f i c u)"
  by (auto split: sum.splits)

lemma sum3_Inl:
  "(case (r1, r2, r3) of (Inr i, Inr c, Inr u) \<Rightarrow> Inr (f i c u) | _ \<Rightarrow> Inl e) = Inl e' \<longleftrightarrow>
     e' = e \<and> (isl r1 \<or> isl r2 \<or> isl r3)"
  by (auto split: sum.splits)

lemma sum7:
  "(case (r1, r2, r3, r4, r5, r6, r7) of
      (Inr i, Inr c, Inr u, Inr n, Inr q, Inr p, Inr s) \<Rightarrow> Inr (f i c u n q p s)
    | _ \<Rightarrow> Inl e) = Inr r \<longleftrightarrow>
     (\<exists>i c u n q p s. (r1 = Inr i \<and> r2 = Inr c \<and> r3 = Inr u) \<and> r4 = Inr n \<and> r5 = Inr q
        \<and> r6 = Inr p \<and> r7 = Inr s \<and> r = f i c u n q p s)"
  by (auto split: sum.splits)

lemma sum7_Inl:
  "(case (r1, r2, r3, r4, r5, r6, r7) of
      (Inr i, Inr c, Inr u, Inr n, Inr q, Inr p, Inr s) \<Rightarrow> Inr (f i c u n q p s)
    | _ \<Rightarrow> Inl e) = Inl e' \<longleftrightarrow>
     e' = e \<and> ((isl r1 \<or> isl r2 \<or> isl r3) \<or> isl r4 \<or> isl r5 \<or> isl r6 \<or> isl r7)"
  by (auto split: sum.splits)

lemma Base_Inr:
  "fst (BaseSchemaMixin_init L kw w) = Inr r \<longleftrightarrow>
     base_fields L kw w (id' r) (created_at r) (updated_at r)"
proof -
  obtain r1 r2 r3 w1 w2 w3 where
    d: "defaulted (validate_uuid4 L) uuid_uuid4 ''id'' kw w = (r1, w1)"
    "defaulted (validate_datetime L) datetime_now_UTC ''created_at'' kw w1 = (r2, w2)"
    "defaulted (validate_datetime L) datetime_now_UTC ''updated_at'' kw w2 = (r3, w3)"
    and f: "\<And>i c u. r1 = Inr i \<and> r2 = Inr c \<and> r3 = Inr u \<longleftrightarrow> base_fields L kw w i c u"
    and e: "errors_of r1 @ errors_of r2 @ errors_of r3 = base_errors L kw"
    "isl r1 \<or> isl r2 \<or> isl r3 \<longleftrightarrow> base_errors L kw \<noteq> []"
    by (rule inherited_fields [of L kw w]) blast
  have eq: "fst (BaseSchemaMixin_init L kw w) =
      (case (r1, r2, r3) of
         (Inr i, Inr c, Inr u) \<Rightarrow> Inr \<lparr>id' = i, created_at = c, updated_at = u\<rparr>
       | _ \<Rightarrow> Inl (ValidationError (errors_of r1 @ errors_of r2 @ errors_of r3)))"
    by (simp add: BaseSchemaMixin_init_def d)
  show ?thesis
    unfolding eq sum3 f by (cases r) auto
qed

lemma Base_Inl:
  "fst (BaseSchemaMixin_init L kw w) = Inl e \<longleftrightarrow>
     e = ValidationError (base_errors L kw) \<and> base_errors L kw \<noteq> []"
proof -
  obtain r1 r2 r3 w1 w2 w3 where
    d: "defaulted (validate_uuid4 L) uuid_uuid4 ''id'' kw w = (r1, w1)"
    "defaulted (validate_datetime L) datetime_now_UTC ''created_at'' kw w1 = (r2, w2)"
    "defaulted (validate_datetime L) datetime_now_UTC ''updated_at'' kw w2 = (r3, w3)"
    and f: "\<And>i c u. r1 = Inr i \<and> r2 = Inr c \<and> r3 = Inr u \<longleftrightarrow> base_fields L kw w i c u"
    and e: "errors_of r1 @ errors_of r2 @ errors_of r3 = base_errors L kw"
    "isl r1 \<or> isl r2 \<or> isl r3 \<longleftrightarrow> base_errors L kw \<noteq> []"
    by (rule inherited_fields [of L kw w]) blast
  have eq: "fst (BaseSchemaMixin_init L kw w) =
      (case (r1, r2, r3) of
         (Inr i, Inr c, Inr u) \<Rightarrow> Inr \<lparr>id' = i, created_at = c, updated_at = u\<rparr>
       | _ \<Rightarrow> Inl (ValidationError (errors_of r1 @ errors_of r2 @ errors_of r3)))"
    by (simp add: BaseSchemaMixin_init_def d)
  show ?thesis
    unfolding eq sum3_Inl e by auto
qed

lemma Base_world:
  "snd (BaseSchemaMixin_init L kw w) =
     w\<lparr>drawn := drawn w + (if kw ''id'' = None then 1 else 0),
       reads := reads w + (if kw ''created_at'' = None then 1 else 0)
                  + (if kw ''updated_at'' = None then 1 else 0)\<rparr>"
  by (simp add: BaseSchemaMixin_init_def split_def Let_def snd_defaulted
        uuid_uuid4_def datetime_now_UTC_def)

lemma Product_world:
  "snd (ProductIn_init L kw w) = snd (BaseSchemaMixin_init L kw w)"
  by (simp add: BaseSchemaMixin_init_def ProductIn_init_def split_def Let_def)

lemma Product_Inr:
  "fst (ProductIn_init L kw w) = Inr p \<longleftrightarrow>
     base_fields L kw w (id' p) (created_at p) (updated_at p) \<and>
     (\<exists>x. kw ''name'' = Some x \<and> validate_str x = Inr (name p)) \<and>
     (\<exists>x. kw ''quantity'' = Some x \<and> validate_int L x = Inr (quantity p)) \<and>
     (\<exists>x. kw ''price'' = Some x \<and> validate_float L x = Inr (price p)) \<and>
     (\<exists>x. kw ''status'' = Some x \<and> validate_bool x = Inr (status p))"
proof -
  obtain r1 r2 r3 w1 w2 w3 where
    d: "defaulted (validate_uuid4 L) uuid_uuid4 ''id'' kw w = (r1, w1)"
    "defaulted (validate_datetime L) datetime_now_UTC ''created_at'' kw w1 = (r2, w2)"
    "defaulted (validate_datetime L) datetime_now_UTC ''updated_at'' kw w2 = (r3, w3)"
    and f: "\<And>i c u. r1 = Inr i \<and> r2 = Inr c \<and> r3 = Inr u \<longleftrightarrow> base_fields L kw w i c u"
    and e: "errors_of r1 @ errors_of r2 @ errors_of r3 = base_errors L kw"
    "isl r1 \<or> isl r2 \<or> isl r3 \<longleftrightarrow> base_errors L kw \<noteq> []"
    by (rule inherited_fields [of L kw w]) blast
  have eq: "fst (ProductIn_init L kw w) =
      (case (r1, r2, r3, required validate_str ''name'' kw,
             required (validate_int L) ''quantity'' kw,
             required (validate_float L) ''price'' kw,
             required validate_bool ''status'' kw) of
         (Inr i, Inr c, Inr u, Inr n, Inr q, Inr p, Inr s) \<Rightarrow>
            Inr \<lparr>id' = i, created_at = c, updated_at = u,
                 name = n, quantity = q, price = p, status = s\<rparr>
       | _ \<Rightarrow> Inl (ValidationError
             (errors_of r1 @ errors_of r2 @ errors_of r3
                @ errors_of (required validate_str ''name'' kw)
                @ errors_of (required (validate_int L) ''quantity'' kw)
                @ errors_of (required (validate_float L) ''price'' kw)
                @ errors_of (required validate_bool ''status'' kw))))"
    by (simp add: ProductIn_init_def d Let_def)
  show ?thesis
    unfolding eq sum7 f required_Inr by (cases p) auto
qed

lemma Product_Inl:
  "fst (ProductIn_init L kw w) = Inl e \<longleftrightarrow>
     e = ValidationError (product_errors L kw) \<and> product_errors L kw \<noteq> []"
proof -
  obtain r1 r2 r3 w1 w2 w3 where
    d: "defaulted (validate_uuid4 L) uuid_uuid4 ''id'' kw w = (r1, w1)"
    "defaulted (validate_datetime L) datetime_now_UTC ''created_at'' kw w1 = (r2, w2)"
    "defaulted (validate_datetime L) datetime_now_UTC ''updated_at'' kw w2 = (r3, w3)"
    and f: "\<And>i c u. r1 = Inr i \<and> r2 = Inr c \<and> r3 = Inr u \<longleftrightarrow> base_fields L kw w i c u"
    and e: "errors_of r1 @ errors_of r2 @ errors_of r3 = base_errors L kw"
    "isl r1 \<or> isl r2 \<or> isl r3 \<longleftrightarrow> base_errors L kw \<noteq> []"
    by (rule inherited_fields [of L kw w]) blast
  have eq: "fst (ProductIn_init L kw w) =
      (case (r1, r2, r3, required validate_str ''name'' kw,
             required (validate_int L) ''quantity'' kw,
             required (validate_float L) ''price'' kw,
             required validate_bool ''status'' kw) of
         (Inr i, Inr c, Inr u, Inr n, Inr q, Inr p, Inr s) \<Rightarrow>
            Inr \<lparr>id' = i, created_at = c, updated_at = u,
                 name = n, quantity = q, price = p, status = s\<rparr>
       | _ \<Rightarrow> Inl (ValidationError
             (errors_of r1 @ errors_of r2 @ errors_of r3
                @ errors_of (required validate_str ''name'' kw)
                @ errors_of (required (validate_int L) ''quantity'' kw)
                @ errors_of (required (validate_float L) ''price'' kw)
                @ errors_of (required validate_bool ''status'' kw))))"
    by (simp add: ProductIn_init_def d Let_def)
  have app: "errors_of r1 @ errors_of r2 @ errors_of r3 @ xs = base_errors L kw @ xs" for xs
    using e(1) [symmetric] by simp
  show ?thesis
    unfolding eq sum7_Inl e(2) isl_required app errors_required
    by (auto simp: product_errors_def)
qed

lemma product_id_eq: "product_id = Some 0xddc287efab934ef5833678883c422f6a"
  unfolding product_id_def UUID_def by (simp add: hexval_def)

lemma version_product_id: "version 0xddc287efab934ef5833678883c422f6a = Some 4"
  by (simp add: version_def rfc_4122_def)

lemma validate_uuid4_PyUUID:
  "validate_uuid4 L (PyUUID u) = Inr i \<longleftrightarrow> version u = Some 4 \<and> i = u"
  by (auto simp: validate_uuid4_def check_version_def)

lemma validate_datetime_PyDatetime: "validate_datetime L (PyDatetime d) = Inr c \<longleftrightarrow> c = d"
  by (auto simp: validate_datetime_def)

lemma default_base:
  "fst (BaseSchemaMixin_init reject_all no_arguments counting) =
     Inr \<lparr>id' = uuid4 0, created_at = \<lparr>micros = 0, utcoffset = Some 0\<rparr>,
          updated_at = \<lparr>micros = 1, utcoffset = Some 0\<rparr>\<rparr>"
  by (simp add: Base_Inr base_fields_def no_arguments_def counting_def)

lemma pinned_base:
  "BaseSchemaMixin_init reject_all pinned counting =
     (Inr \<lparr>id' = 0xddc287efab934ef5833678883c422f6a,
           created_at = \<lparr>micros = 5, utcoffset = Some 0\<rparr>,
           updated_at = \<lparr>micros = 9, utcoffset = Some 0\<rparr>\<rparr>, counting)"
proof (rule prod_eqI)
  show "fst (BaseSchemaMixin_init reject_all pinned counting) =
      fst (Inr \<lparr>id' = 0xddc287efab934ef5833678883c422f6a,
           created_at = \<lparr>micros = 5, utcoffset = Some 0\<rparr>,
           updated_at = \<lparr>micros = 9, utcoffset = Some 0\<rparr>\<rparr>, counting)"
    by (simp add: Base_Inr base_fields_def pinned_def validate_uuid4_PyUUID
          validate_datetime_PyDatetime version_product_id)
  show "snd (BaseSchemaMixin_init reject_all pinned counting) =
      snd (Inr \<lparr>id' = 0xddc287efab934ef5833678883c422f6a,
           created_at = \<lparr>micros = 5, utcoffset = Some 0\<rparr>,
           updated_at = \<lparr>micros = 9, utcoffset = Some 0\<rparr>\<rparr>, counting)"
    by (simp add: Base_world pinned_def)
qed

lemma rejects_Base:
  "rejects (BaseSchemaMixin_init L kw w) loc e \<longleftrightarrow> (loc, e) \<in> set (base_errors L kw)"
proof (cases "fst (BaseSchemaMixin_init L kw w)")
  case (Inl a)
  then have "a = ValidationError (base_errors L kw)" by (simp add: Base_Inl)
  with Inl show ?thesis by (simp add: rejects_def)
next
  case (Inr r)
  then have "base_errors L kw = []"
    using Base_Inl [of L kw w "ValidationError (base_errors L kw)"] by auto
  with Inr show ?thesis by (simp add: rejects_def)
qed

lemma rejects_Product:
  "rejects (ProductIn_init L kw w) loc e \<longleftrightarrow> (loc, e) \<in> set (product_errors L kw)"
proof (cases "fst (ProductIn_init L kw w)")
  case (Inl a)
  then have "a = ValidationError (product_errors L kw)" by (simp add: Product_Inl)
  with Inl show ?thesis by (simp add: rejects_def)
next
  case (Inr r)
  then have "product_errors L kw = []"
    using Product_Inl [of L kw w "ValidationError (product_errors L kw)"] by auto
  with Inr show ?thesis by (simp add: rejects_def)
qed

lemma field_errors_mem:
  "(loc, e) \<in> set (field_errors v req loc' kw) \<longleftrightarrow>
     loc = loc' \<and> ((req \<and> kw loc' = None \<and> e = missing) \<or> (\<exists>x. kw loc' = Some x \<and> v x = Inl e))"
  by (auto simp: field_errors_def split: option.splits sum.splits)

lemma naive_base:
  "fst (BaseSchemaMixin_init reject_all naive_created_at counting) =
     Inr \<lparr>id' = uuid4 0, created_at = \<lparr>micros = 0, utcoffset = None\<rparr>,
          updated_at = \<lparr>micros = 0, utcoffset = Some 0\<rparr>\<rparr>"
  by (simp add: Base_Inr base_fields_def naive_created_at_def counting_def
        validate_datetime_PyDatetime)

lemma sample_product_in:
  "fst (product_in reject_all sample_data counting) =
     Inr \<lparr>id' = 0xddc287efab934ef5833678883c422f6a,
          created_at = \<lparr>micros = 0, utcoffset = Some 0\<rparr>,
          updated_at = \<lparr>micros = 1, utcoffset = Some 0\<rparr>,
          name = ''Iphone 14 Pro Max'', quantity = 10, price = 8.5, status = True\<rparr>"
  by (simp add: product_in_def product_id_eq sample_data_def Product_Inr base_fields_def
        validate_uuid4_PyUUID version_product_id counting_def
        validate_str_def validate_int_def validate_float_def validate_bool_def)

lemma rejects_Product_mem:
  "rejects (ProductIn_init L kw w) loc e \<longleftrightarrow>
     (loc = ''id'' \<and> (\<exists>x. kw ''id'' = Some x \<and> validate_uuid4 L x = Inl e)) \<or>
     (loc = ''created_at'' \<and> (\<exists>x. kw ''created_at'' = Some x \<and> validate_datetime L x = Inl e)) \<or>
     (loc = ''updated_at'' \<and> (\<exists>x. kw ''updated_at'' = Some x \<and> validate_datetime L x = Inl e)) \<or>
     (loc = ''name'' \<and>
        (kw ''name'' = None \<and> e = missing \<or> (\<exists>x. kw ''name'' = Some x \<and> validate_str x = Inl e))) \<or>
     (loc = ''quantity'' \<and>
        (kw ''quantity'' = None \<and> e = missing \<or>
         (\<exists>x. kw ''quantity'' = Some x \<and> validate_int L x = Inl e))) \<or>
     (loc = ''price'' \<and>
        (kw ''price'' = None \<and> e = missing \<or>
         (\<exists>x. kw ''price'' = Some x \<and> validate_float L x = Inl e))) \<or>
     (loc = ''status'' \<and>
        (kw ''status'' = None \<and> e = missing \<or>
         (\<exists>x. kw ''status'' = Some x \<and> validate_bool x = Inl e)))"
  unfolding rejects_Product product_errors_def base_errors_def set_append Un_iff field_errors_mem
  by simp

lemma rejects_Base_mem:
  "rejects (BaseSchemaMixin_init L kw w) loc e \<longleftrightarrow>
     (loc = ''id'' \<and> (\<exists>x. kw ''id'' = Some x \<and> validate_uuid4 L x = Inl e)) \<or>
     (loc = ''created_at'' \<and> (\<exists>x. kw ''created_at'' = Some x \<and> validate_datetime L x = Inl e)) \<or>
     (loc = ''updated_at'' \<and> (\<exists>x. kw ''updated_at'' = Some x \<and> validate_datetime L x = Inl e))"
  unfolding rejects_Base base_errors_def set_append Un_iff field_errors_mem
  by simp

lemma validate_uuid4_version:
  "version u \<noteq> Some 4 \<Longrightarrow> validate_uuid4 L (PyUUID u) = Inl uuid_version"
  by (simp add: validate_uuid4_def check_version_def)

lemma version_1: "version 0xddc287efab931ef5833678883c422f6a = Some 1"
  by (simp add: version_def rfc_4122_def)

lemma snd_default_base:
  "snd (BaseSchemaMixin_init reject_all no_arguments counting) = counting\<lparr>drawn := Suc 0, reads := 2\<rparr>"
  by (simp add: Base_world no_arguments_def counting_def)

lemma second_default_base:
  "fst (BaseSchemaMixin_init reject_all no_arguments (counting\<lparr>drawn := Suc 0, reads := 2\<rparr>)) =
     Inr \<lparr>id' = uuid4 1, created_at = \<lparr>micros = 2, utcoffset = Some 0\<rparr>,
          updated_at = \<lparr>micros = 3, utcoffset = Some 0\<rparr>\<rparr>"
  by (simp add: Base_Inr base_fields_def no_arguments_def counting_def)

lemma keep_1: "(1 :: 128 word) AND keep \<noteq> 0"
proof -
  have "bit keep 0" unfolding keep_def
    by (simp only: bit_not_iff bit_or_iff bit_variant_mask bit_version_mask possible_bit_word)
      simp
  then have "bit (1 AND keep) 0" by (simp add: bit_and_iff)
  then show ?thesis by auto
qed

lemma frozen_base:
  "fst (BaseSchemaMixin_init reject_all no_arguments frozen) =
     Inr \<lparr>id' = uuid4 0, created_at = \<lparr>micros = 0, utcoffset = Some 0\<rparr>,
          updated_at = \<lparr>micros = 0, utcoffset = Some 0\<rparr>\<rparr>"
  "snd (BaseSchemaMixin_init reject_all no_arguments frozen) = frozen\<lparr>drawn := Suc 0, reads := 2\<rparr>"
  "fst (BaseSchemaMixin_init reject_all no_arguments (frozen\<lparr>drawn := Suc 0, reads := 2\<rparr>)) =
     Inr \<lparr>id' = uuid4 0, created_at = \<lparr>micros = 0, utcoffset = Some 0\<rparr>,
          updated_at = \<lparr>micros = 0, utcoffset = Some 0\<rparr>\<rparr>"
  by (simp_all add: Base_Inr Base_world base_fields_def no_arguments_def frozen_def)

lemma text_quantity_product:
  "fst (ProductIn_init reject_all quantity_as_text counting) =
     Inr \<lparr>id' = uuid4 0,
          created_at = \<lparr>micros = 0, utcoffset = Some 0\<rparr>,
          updated_at = \<lparr>micros = 1, utcoffset = Some 0\<rparr>,
          name = ''Iphone 14 Pro Max'', quantity = 10, price = 8.5, status = True\<rparr>"
  by (simp add: quantity_as_text_def sample_data_def Product_Inr base_fields_def counting_def
        validate_str_def validate_int_def validate_float_def validate_bool_def
        decimal_def digit_def)



section \<open>The cleanup loop\<close>

lemma get_database_server [simp]: "get_database (c\<lparr>server := f\<rparr>) = get_database c"
  by (simp add: get_database_def)







lemma loop_exception:
  "fst (for_collection_name ns c) = Some e \<Longrightarrow>
   e = Exception ''ConfigurationError'' \<or> (\<exists>d n. delete_fault (server c d) n = Some e)"
proof (induction ns arbitrary: c)
  case Nil
  then show ?case by simp
next
  case (Cons n ns)
  show ?case
  proof (cases "startswith n ''system''")
    case True
    with Cons show ?thesis by simp
  next
    case False
    show ?thesis
    proof (cases "get_database c")
      case (Inl a)
      with False Cons.prems show ?thesis
        by (auto simp: get_database_def split: option.splits)
    next
      case (Inr d)
      show ?thesis
      proof (cases "delete_fault (server c d) n")
        case (Some a)
        with False Inr Cons.prems show ?thesis by (auto simp: delete_many_def)
      next
        case None
        let ?db = "(server c d)\<lparr>collections :=
          map (\<lambda>(m, ds). if m = n then (m, []) else (m, ds)) (collections (server c d))\<rparr>"
        let ?c = "c\<lparr>server := (server c)(d := ?db)\<rparr>"
        from None False Inr Cons.prems have "fst (for_collection_name ns ?c) = Some e"
          by (simp add: delete_many_def)
        from Cons.IH [OF this] show ?thesis
          by (auto split: if_splits)
      qed
    qed
  qed
qed




lemma try_body_exception:
  assumes "fst (try_body c) = Some e"
  shows "e = Exception ''ConfigurationError'' \<or> (\<exists>d. list_fault (server c d) = Some e) \<or>
         (\<exists>d n. delete_fault (server c d) n = Some e)"
proof (cases "get_database c")
  case (Inl a)
  with assms show ?thesis
    by (auto simp: try_body_def get_database_def split: option.splits)
next
  case (Inr d)
  show ?thesis
  proof (cases "list_fault (server c d)")
    case None
    with Inr assms have "fst (for_collection_name (map fst (collections (server c d))) c) = Some e"
      by (simp add: try_body_def list_collection_names_def)
    then show ?thesis using loop_exception by blast
  next
    case (Some a)
    with Inr assms show ?thesis
      by (auto simp: try_body_def list_collection_names_def)
  qed
qed

lemma store_client_database: "get_database (store_client db) = Inr ''store''"
  by (simp add: get_database_def store_client_def uri_database_def startswith_def)

lemma mongo_client_database:
  "get_database (mongo_client srv) = Inl (Exception ''ConfigurationError'')"
  by (simp add: get_database_def mongo_client_def uri_database_def startswith_def)

lemma mongo_client_cleanup_does_nothing:
  "clear_collections (mongo_client srv) = (None, mongo_client srv)"
  by (simp add: clear_collections_def try_body_def mongo_client_database)

lemma BaseException_leaves_cleanup:
  "get_database c = Inr d \<Longrightarrow> list_fault (server c d) = Some (BaseException k) \<Longrightarrow>
   clear_collections c = (Some (BaseException k), c)"
  by (simp add: clear_collections_def try_body_def list_collection_names_def)

lemma read_only_try_body:
  "try_body (store_client read_only_products) =
     (Some (Exception ''OperationFailure''), store_client read_only_products)"
proof -
  let ?c = "store_client read_only_products"
  have db: "server ?c ''store'' = read_only_products"
    by (simp add: store_client_def)
  have names: "list_collection_names read_only_products =
      Inr [''products'', ''system.views'', ''orders'']"
    by (simp add: list_collection_names_def read_only_products_def sample_collections_def)
  have del: "delete_many ''products'' read_only_products = Inl (Exception ''OperationFailure'')"
    by (simp add: delete_many_def read_only_products_def)
  have "\<not> startswith ''products'' ''system''"
    by (simp add: startswith_def)
  then have "for_collection_name [''products'', ''system.views'', ''orders''] ?c =
      (Some (Exception ''OperationFailure''), ?c)"
    by (simp add: store_client_database db del)
  then show ?thesis
    by (simp add: try_body_def store_client_database db names)
qed

section \<open>The base identity and timestamp contract\<close>

text \<open>
  Claim C1, as the code has it. With neither \<^verbatim>\<open>created_at\<close> nor \<^verbatim>\<open>updated_at\<close> among
  the arguments, each of the two fields calls its own factory, so the record holds two
  successive readings of the clock, both with UTC attached: \<^verbatim>\<open>created_at\<close> the earlier
  one, \<^verbatim>\<open>updated_at\<close> the next. The two fields are equal exactly when the clock returned
  the same reading twice. This holds for \<^verbatim>\<open>BaseSchemaMixin\<close> and for \<^verbatim>\<open>ProductIn\<close>.
\<close>

theorem C1_timestamps_are_two_clock_readings:
  assumes "kw ''created_at'' = None" and "kw ''updated_at'' = None"
  shows "(\<forall>r. fst (BaseSchemaMixin_init L kw w) = Inr r \<longrightarrow>
            created_at r = \<lparr>micros = clock w (reads w), utcoffset = Some 0\<rparr> \<and>
            updated_at r = \<lparr>micros = clock w (reads w + 1), utcoffset = Some 0\<rparr> \<and>
            (created_at r = updated_at r \<longleftrightarrow> clock w (reads w) = clock w (reads w + 1))) \<and>
         (\<forall>p. fst (ProductIn_init L kw w) = Inr p \<longrightarrow>
            created_at p = \<lparr>micros = clock w (reads w), utcoffset = Some 0\<rparr> \<and>
            updated_at p = \<lparr>micros = clock w (reads w + 1), utcoffset = Some 0\<rparr> \<and>
            (created_at p = updated_at p \<longleftrightarrow> clock w (reads w) = clock w (reads w + 1)))"
  using assms by (simp add: Base_Inr Product_Inr base_fields_def)

theorem C1_witness:
  "\<not> isl (fst (BaseSchemaMixin_init reject_all no_arguments counting)) \<and>
   created_at (projr (fst (BaseSchemaMixin_init reject_all no_arguments counting))) =
     \<lparr>micros = 0, utcoffset = Some 0\<rparr> \<and>
   updated_at (projr (fst (BaseSchemaMixin_init reject_all no_arguments counting))) =
     \<lparr>micros = 1, utcoffset = Some 0\<rparr>"
  using C1_timestamps_are_two_clock_readings [of no_arguments reject_all counting] default_base
  by (simp add: no_arguments_def counting_def)

text \<open>
  Claim C1 as the specification states it fails: when the clock moves between the two
  readings, a record built with no arguments has \<^verbatim>\<open>created_at\<close> different from
  \<^verbatim>\<open>updated_at\<close>.
\<close>

theorem C1_counterexample:
  "\<not> isl (fst (BaseSchemaMixin_init reject_all no_arguments counting)) \<and>
   created_at (projr (fst (BaseSchemaMixin_init reject_all no_arguments counting))) \<noteq>
   updated_at (projr (fst (BaseSchemaMixin_init reject_all no_arguments counting)))"
  by (simp add: default_base)

text \<open>
  Claim C5. In a record that \<^verbatim>\<open>BaseSchemaMixin\<close> built, a field for which the caller gave
  a UUID (for \<^verbatim>\<open>id\<close>) or a datetime (for \<^verbatim>\<open>created_at\<close>, \<^verbatim>\<open>updated_at\<close>) holds that
  value unchanged (a value given in another form holds what the field's validator made of
  it), and the factories ran for the omitted fields only: the random source was drawn once
  if \<^verbatim>\<open>id\<close> was omitted and not at all otherwise, and the clock was read once per
  omitted timestamp.
\<close>

theorem C5_explicit_values_override_defaults:
  assumes "BaseSchemaMixin_init L kw w = (Inr r, w')"
  shows "(\<forall>u. kw ''id'' = Some (PyUUID u) \<longrightarrow> id' r = u \<and> drawn w' = drawn w) \<and>
         (\<forall>d. kw ''created_at'' = Some (PyDatetime d) \<longrightarrow> created_at r = d) \<and>
         (\<forall>d. kw ''updated_at'' = Some (PyDatetime d) \<longrightarrow> updated_at r = d) \<and>
         (\<forall>v. kw ''id'' = Some v \<longrightarrow> validate_uuid4 L v = Inr (id' r)) \<and>
         (\<forall>v. kw ''created_at'' = Some v \<longrightarrow> validate_datetime L v = Inr (created_at r)) \<and>
         (\<forall>v. kw ''updated_at'' = Some v \<longrightarrow> validate_datetime L v = Inr (updated_at r)) \<and>
         drawn w' = drawn w + (if kw ''id'' = None then 1 else 0) \<and>
         reads w' = reads w + (if kw ''created_at'' = None then 1 else 0)
                      + (if kw ''updated_at'' = None then 1 else 0)"
proof -
  from assms have r: "fst (BaseSchemaMixin_init L kw w) = Inr r"
    and w': "w' = snd (BaseSchemaMixin_init L kw w)" by simp_all
  from r have "base_fields L kw w (id' r) (created_at r) (updated_at r)"
    by (simp add: Base_Inr)
  then show ?thesis
    unfolding w' Base_world
    by (auto simp: base_fields_def validate_uuid4_PyUUID validate_datetime_PyDatetime)
qed

theorem C5_witness:
  "id' (projr (fst (BaseSchemaMixin_init reject_all pinned counting))) =
     0xddc287efab934ef5833678883c422f6a \<and>
   created_at (projr (fst (BaseSchemaMixin_init reject_all pinned counting))) =
     \<lparr>micros = 5, utcoffset = Some 0\<rparr> \<and>
   updated_at (projr (fst (BaseSchemaMixin_init reject_all pinned counting))) =
     \<lparr>micros = 9, utcoffset = Some 0\<rparr> \<and>
   drawn (snd (BaseSchemaMixin_init reject_all pinned counting)) = drawn counting \<and>
   reads (snd (BaseSchemaMixin_init reject_all pinned counting)) = reads counting"
proof -
  have k: "pinned ''id'' = Some (PyUUID 0xddc287efab934ef5833678883c422f6a)"
    "pinned ''created_at'' = Some (PyDatetime \<lparr>micros = 5, utcoffset = Some 0\<rparr>)"
    "pinned ''updated_at'' = Some (PyDatetime \<lparr>micros = 9, utcoffset = Some 0\<rparr>)"
    by (simp_all add: pinned_def)
  show ?thesis
    using C5_explicit_values_override_defaults [OF pinned_base] k
    by (simp add: pinned_base)
qed

text \<open>
  Claim C6, as the code has it. In a record that \<^verbatim>\<open>BaseSchemaMixin\<close> built, a timestamp
  that the caller omitted is timezone-aware with UTC offset zero, and a datetime that the
  caller supplied is stored as given: the field type is plain \<^verbatim>\<open>datetime\<close>, which takes
  naive values and values with any offset.
\<close>

theorem C6_default_timestamps_are_utc:
  assumes "fst (BaseSchemaMixin_init L kw w) = Inr r"
  shows "(kw ''created_at'' = None \<longrightarrow> aware_utc (created_at r)) \<and>
         (kw ''updated_at'' = None \<longrightarrow> aware_utc (updated_at r)) \<and>
         (\<forall>d. kw ''created_at'' = Some (PyDatetime d) \<longrightarrow> created_at r = d) \<and>
         (\<forall>d. kw ''updated_at'' = Some (PyDatetime d) \<longrightarrow> updated_at r = d)"
  using assms
  by (auto simp: Base_Inr base_fields_def aware_utc_def validate_datetime_PyDatetime)

theorem C6_witness:
  "aware_utc (created_at (projr (fst (BaseSchemaMixin_init reject_all no_arguments counting)))) \<and>
   aware_utc (updated_at (projr (fst (BaseSchemaMixin_init reject_all no_arguments counting))))"
proof -
  have "no_arguments ''created_at'' = None" "no_arguments ''updated_at'' = None"
    by (simp_all add: no_arguments_def)
  then show ?thesis
    using C6_default_timestamps_are_utc [OF default_base] by (simp add: default_base)
qed

text \<open>
  Claim C6 as the specification states it fails: a naive datetime given for
  \<^verbatim>\<open>created_at\<close> is accepted and the record's \<^verbatim>\<open>created_at\<close> is not timezone-aware.
\<close>

theorem C6_counterexample:
  "\<not> isl (fst (BaseSchemaMixin_init reject_all naive_created_at counting)) \<and>
   \<not> aware_utc (created_at (projr (fst (BaseSchemaMixin_init reject_all naive_created_at counting))))"
  by (simp add: naive_base aware_utc_def)

section \<open>The sample product\<close>

text \<open>
  Claim C7. Whatever dictionary the factory returns, a record that the \<^verbatim>\<open>product_in\<close>
  fixture yields has the identifier \<^verbatim>\<open>ddc287ef-ab93-4ef5-8336-78883c422f6a\<close>.
\<close>

theorem C7_product_in_has_the_fixed_id:
  assumes "fst (product_in L product_data w) = Inr p"
  shows "id' p = 0xddc287efab934ef5833678883c422f6a"
proof -
  let ?u = "0xddc287efab934ef5833678883c422f6a :: uuid"
  from assms have "fst (ProductIn_init L (product_data(''id'' \<mapsto> PyUUID ?u)) w) = Inr p"
    by (simp add: product_in_def product_id_eq split: if_splits)
  then have "validate_uuid4 L (PyUUID ?u) = Inr (id' p)"
    by (simp add: Product_Inr base_fields_def)
  then show ?thesis by (simp add: validate_uuid4_PyUUID)
qed

theorem C7_witness:
  "\<not> isl (fst (product_in reject_all sample_data counting)) \<and>
   id' (projr (fst (product_in reject_all sample_data counting))) =
     0xddc287efab934ef5833678883c422f6a"
  using C7_product_in_has_the_fixed_id [OF sample_product_in]
  by (simp add: sample_product_in)

section \<open>Identifiers\<close>

text \<open>
  Claim C8, as the code has it. Two constructions of \<^verbatim>\<open>BaseSchemaMixin\<close> with no \<^verbatim>\<open>id\<close>
  given, one after the other, get the version-4 UUIDs made from two successive 16-byte
  draws of the random source. The two ids are equal exactly when the two draws agree on
  the 122 bits outside the version and variant fields; nothing else in the code keeps ids
  apart.
\<close>

theorem C8_ids_differ_when_random_draws_differ:
  assumes "kw1 ''id'' = None" and "kw2 ''id'' = None"
    and "BaseSchemaMixin_init L kw1 w = (Inr r1, w1)"
    and "BaseSchemaMixin_init L kw2 w1 = (Inr r2, w2)"
  shows "version (id' r1) = Some 4 \<and> version (id' r2) = Some 4 \<and>
         (id' r1 = id' r2 \<longleftrightarrow>
            urandom w (drawn w) AND keep = urandom w (drawn w + 1) AND keep)"
proof -
  from assms(3) have a: "fst (BaseSchemaMixin_init L kw1 w) = Inr r1"
    and w1: "w1 = snd (BaseSchemaMixin_init L kw1 w)" by simp_all
  from assms(4) have b: "fst (BaseSchemaMixin_init L kw2 w1) = Inr r2" by simp
  have i1: "id' r1 = uuid4 (urandom w (drawn w))"
    using a assms(1) by (simp add: Base_Inr base_fields_def)
  have "urandom w1 = urandom w" "drawn w1 = drawn w + 1"
    using assms(1) by (simp_all add: w1 Base_world)
  then have i2: "id' r2 = uuid4 (urandom w (drawn w + 1))"
    using b assms(2) by (simp add: Base_Inr base_fields_def)
  show ?thesis by (simp add: i1 i2 version_uuid4 uuid4_eq_iff)
qed

theorem C8_witness:
  "id' (projr (fst (BaseSchemaMixin_init reject_all no_arguments counting))) \<noteq>
   id' (projr (fst (BaseSchemaMixin_init reject_all no_arguments
                      (snd (BaseSchemaMixin_init reject_all no_arguments counting)))))"
proof -
  have n: "no_arguments ''id'' = None" by (simp add: no_arguments_def)
  have c: "urandom counting (drawn counting) = 0" "urandom counting (Suc (drawn counting)) = 1"
    by (simp_all add: counting_def)
  have s1: "BaseSchemaMixin_init reject_all no_arguments counting =
      (Inr \<lparr>id' = uuid4 0, created_at = \<lparr>micros = 0, utcoffset = Some 0\<rparr>,
            updated_at = \<lparr>micros = 1, utcoffset = Some 0\<rparr>\<rparr>,
       counting\<lparr>drawn := Suc 0, reads := 2\<rparr>)"
    by (rule prod_eqI) (simp_all add: default_base snd_default_base)
  have s2: "BaseSchemaMixin_init reject_all no_arguments (counting\<lparr>drawn := Suc 0, reads := 2\<rparr>) =
      (Inr \<lparr>id' = uuid4 1, created_at = \<lparr>micros = 2, utcoffset = Some 0\<rparr>,
            updated_at = \<lparr>micros = 3, utcoffset = Some 0\<rparr>\<rparr>,
       snd (BaseSchemaMixin_init reject_all no_arguments (counting\<lparr>drawn := Suc 0, reads := 2\<rparr>)))"
    by (rule prod_eqI) (simp_all add: second_default_base)
  show ?thesis
    using C8_ids_differ_when_random_draws_differ [OF n n s1 s2]
    by (simp add: default_base snd_default_base second_default_base c keep_1)
qed

text \<open>
  Claim C8 as the specification states it fails: when the random source returns the same
  bytes twice, two constructions with no \<^verbatim>\<open>id\<close> given yield records with the same id.
\<close>

theorem C8_counterexample:
  "\<not> isl (fst (BaseSchemaMixin_init reject_all no_arguments frozen)) \<and>
   \<not> isl (fst (BaseSchemaMixin_init reject_all no_arguments
                 (snd (BaseSchemaMixin_init reject_all no_arguments frozen)))) \<and>
   id' (projr (fst (BaseSchemaMixin_init reject_all no_arguments frozen))) =
   id' (projr (fst (BaseSchemaMixin_init reject_all no_arguments
                      (snd (BaseSchemaMixin_init reject_all no_arguments frozen)))))"
  by (simp add: frozen_base)


text \<open>
  Claim C9. An \<^verbatim>\<open>id\<close> given as a UUID whose version is not 4 (another version, or a
  variant that has no version) is rejected by \<^verbatim>\<open>BaseSchemaMixin\<close> and by \<^verbatim>\<open>ProductIn\<close>,
  with a version error reported at \<^verbatim>\<open>id\<close>.
\<close>

theorem C9_other_uuid_versions_rejected:
  assumes "kw ''id'' = Some (PyUUID u)" and "version u \<noteq> Some 4"
  shows "rejects (BaseSchemaMixin_init L kw w) ''id'' uuid_version \<and>
         rejects (ProductIn_init L kw w) ''id'' uuid_version"
  using assms by (simp add: rejects_Base_mem rejects_Product_mem validate_uuid4_version)

theorem C9_witness:
  "rejects (BaseSchemaMixin_init reject_all version_1_id counting) ''id'' uuid_version \<and>
   rejects (ProductIn_init reject_all version_1_id counting) ''id'' uuid_version"
proof -
  have "version_1_id ''id'' = Some (PyUUID 0xddc287efab931ef5833678883c422f6a)"
    by (simp add: version_1_id_def)
  moreover have "version 0xddc287efab931ef5833678883c422f6a \<noteq> Some 4"
    by (simp add: version_1)
  ultimately show ?thesis by (rule C9_other_uuid_versions_rejected)
qed

section \<open>Product schema validation\<close>

text \<open>
  Claim C2, as the code has it. \<^verbatim>\<open>ProductIn\<close> rejects its arguments when one of
  \<^verbatim>\<open>name\<close>, \<^verbatim>\<open>quantity\<close>, \<^verbatim>\<open>price\<close>, \<^verbatim>\<open>status\<close> is missing, and when one of them
  holds a value that the validator of the field's type cannot convert; the error is
  reported at that field, for each of the four fields on its own. In particular a text
  quantity that is not a numeral is rejected.
\<close>

theorem C2_missing_or_unconvertible_field_rejected:
  "(kw ''name'' = None \<longrightarrow> rejects (ProductIn_init L kw w) ''name'' missing) \<and>
   (kw ''quantity'' = None \<longrightarrow> rejects (ProductIn_init L kw w) ''quantity'' missing) \<and>
   (kw ''price'' = None \<longrightarrow> rejects (ProductIn_init L kw w) ''price'' missing) \<and>
   (kw ''status'' = None \<longrightarrow> rejects (ProductIn_init L kw w) ''status'' missing) \<and>
   (\<forall>x e. kw ''name'' = Some x \<and> validate_str x = Inl e \<longrightarrow>
      rejects (ProductIn_init L kw w) ''name'' e) \<and>
   (\<forall>x e. kw ''quantity'' = Some x \<and> validate_int L x = Inl e \<longrightarrow>
      rejects (ProductIn_init L kw w) ''quantity'' e) \<and>
   (\<forall>x e. kw ''price'' = Some x \<and> validate_float L x = Inl e \<longrightarrow>
      rejects (ProductIn_init L kw w) ''price'' e) \<and>
   (\<forall>x e. kw ''status'' = Some x \<and> validate_bool x = Inl e \<longrightarrow>
      rejects (ProductIn_init L kw w) ''status'' e) \<and>
   (\<forall>s. kw ''quantity'' = Some (PyStr s) \<and> decimal s = None \<and> str_int L s = None \<longrightarrow>
      rejects (ProductIn_init L kw w) ''quantity'' int_parsing)"
  by (auto simp: rejects_Product_mem validate_int_def)

theorem C2_witness:
  "rejects (ProductIn_init reject_all no_arguments counting) ''name'' missing \<and>
   rejects (ProductIn_init reject_all no_arguments counting) ''quantity'' missing \<and>
   rejects (ProductIn_init reject_all no_arguments counting) ''price'' missing \<and>
   rejects (ProductIn_init reject_all no_arguments counting) ''status'' missing \<and>
   rejects (ProductIn_init reject_all all_none counting) ''name'' string_type \<and>
   rejects (ProductIn_init reject_all all_none counting) ''quantity'' int_type \<and>
   rejects (ProductIn_init reject_all all_none counting) ''price'' float_type \<and>
   rejects (ProductIn_init reject_all all_none counting) ''status'' bool_type \<and>
   rejects (ProductIn_init reject_all quantity_abc counting) ''quantity'' int_parsing"
proof -
  have a: "no_arguments ''name'' = None" "no_arguments ''quantity'' = None"
    "no_arguments ''price'' = None" "no_arguments ''status'' = None"
    by (simp_all add: no_arguments_def)
  have b: "all_none ''name'' = Some PyNone" "validate_str PyNone = Inl string_type"
    "all_none ''quantity'' = Some PyNone" "validate_int reject_all PyNone = Inl int_type"
    "all_none ''price'' = Some PyNone" "validate_float reject_all PyNone = Inl float_type"
    "all_none ''status'' = Some PyNone" "validate_bool PyNone = Inl bool_type"
    by (simp_all add: all_none_def validate_str_def validate_int_def validate_float_def
          validate_bool_def)
  have c: "quantity_abc ''quantity'' = Some (PyStr ''abc'')" "decimal ''abc'' = None"
    "str_int reject_all ''abc'' = None"
    by (simp_all add: quantity_abc_def decimal_def digit_def reject_all_def)
  have 1: "rejects (ProductIn_init reject_all no_arguments counting) ''name'' missing \<and>
      rejects (ProductIn_init reject_all no_arguments counting) ''quantity'' missing \<and>
      rejects (ProductIn_init reject_all no_arguments counting) ''price'' missing \<and>
      rejects (ProductIn_init reject_all no_arguments counting) ''status'' missing"
    using C2_missing_or_unconvertible_field_rejected [of no_arguments reject_all counting] a
    by simp
  have 2: "rejects (ProductIn_init reject_all all_none counting) ''name'' string_type \<and>
      rejects (ProductIn_init reject_all all_none counting) ''quantity'' int_type \<and>
      rejects (ProductIn_init reject_all all_none counting) ''price'' float_type \<and>
      rejects (ProductIn_init reject_all all_none counting) ''status'' bool_type"
    using C2_missing_or_unconvertible_field_rejected [of all_none reject_all counting] b
    by simp
  have 3: "rejects (ProductIn_init reject_all quantity_abc counting) ''quantity'' int_parsing"
    using C2_missing_or_unconvertible_field_rejected [of quantity_abc reject_all counting] c
    by simp
  from 1 2 3 show ?thesis by simp
qed

text \<open>
  Claim C2 as the specification states it fails: the text \<^verbatim>\<open>"10"\<close> is not of the
  declared type of \<^verbatim>\<open>quantity\<close>, and the construction succeeds with quantity 10.
\<close>

theorem C2_counterexample:
  "quantity_as_text ''quantity'' = Some (PyStr ''10'') \<and>
   \<not> isl (fst (ProductIn_init reject_all quantity_as_text counting)) \<and>
   quantity (projr (fst (ProductIn_init reject_all quantity_as_text counting))) = 10"
  by (simp add: text_quantity_product) (simp add: quantity_as_text_def)



section \<open>Test isolation\<close>




text \<open>
  Claim C4. Whatever the listing or a deletion raises, as long as it is an instance of
  \<^verbatim>\<open>Exception\<close> (every error of the driver is), nothing leaves the cleanup step: it ends
  normally, so the test's own result stands.
\<close>

theorem C4_cleanup_swallows_every_Exception:
  assumes "\<forall>d e. list_fault (server c d) = Some e \<longrightarrow> is_Exception e"
    and "\<forall>d n e. delete_fault (server c d) n = Some e \<longrightarrow> is_Exception e"
  shows "fst (clear_collections c) = None"
proof -
  obtain x c' where t: "try_body c = (x, c')" by force
  show ?thesis
  proof (cases x)
    case None
    with t show ?thesis by (simp add: clear_collections_def)
  next
    case (Some e)
    with t have "fst (try_body c) = Some e" by simp
    from try_body_exception [OF this] assms have "is_Exception e"
      by (auto simp: is_Exception_def)
    with t Some show ?thesis
      by (simp add: clear_collections_def is_Exception_def split: pyexc.splits)
  qed
qed

theorem C4_witness:
  "fst (try_body (store_client read_only_products)) = Some (Exception ''OperationFailure'') \<and>
   fst (clear_collections (store_client read_only_products)) = None"
proof -
  have 1: "\<forall>d e. list_fault (server (store_client read_only_products) d) = Some e \<longrightarrow> is_Exception e"
    by (simp add: store_client_def read_only_products_def)
  have 2: "\<forall>d n e. delete_fault (server (store_client read_only_products) d) n = Some e \<longrightarrow>
      is_Exception e"
    by (simp add: store_client_def read_only_products_def is_Exception_def)
  show ?thesis
    using C4_cleanup_swallows_every_Exception [OF 1 2] by (simp add: read_only_try_body)
qed

end
